theory Spec2Isabelle
  imports Main
begin

section \<open>The resource registry and dependency graph of pkg/config\<close>

text \<open>
  A shallow embedding of \<^verbatim>\<open>pkg/config/config.go\<close> (the registry and the graph
  builder) and of the block loop of \<^verbatim>\<open>ParseHCLFile\<close>.

  Go values are modelled as follows.
  \<^item> A \<^verbatim>\<open>Resource\<close> is an interface value holding a pointer to a struct that embeds
    \<^verbatim>\<open>ResourceInfo\<close>. The pointer is a natural number; the structs live in a store
    \<open>objects\<close> from pointers to \<open>ResourceInfo\<close> records, so two resources with equal
    fields are still two resources. The fields a variant adds to the embedded
    \<^verbatim>\<open>ResourceInfo\<close> are the extension part of the record, of an arbitrary type
    \<open>'v\<close>.
  \<^item> \<^verbatim>\<open>Status\<close> and \<^verbatim>\<open>ResourceType\<close> are string types in Go and strings here.
  \<^item> A function that returns \<^verbatim>\<open>(x, error)\<close> returns a pair of options, \<open>None\<close> being
    \<^verbatim>\<open>nil\<close>, exactly as the Go pair; a run-time panic is the outcome \<open>Panics\<close>.
  \<^item> Every method of \<^verbatim>\<open>*Config\<close> takes the memory and returns it, updated where
    the method writes.
\<close>

subsection \<open>Data model\<close>

type_synonym Status = string

type_synonym ResourceType = string

definition Applied :: Status where
  "Applied = ''applied''"

definition PendingCreation :: Status where
  "PendingCreation = ''pending_creation''"

definition PendingModification :: Status where
  "PendingModification = ''pending_modification''"

definition Failed :: Status where
  "Failed = ''failed''"

record ResourceInfo =
  Name :: string
  Type :: ResourceType
  Status :: Status
  DependsOn :: "string list"

text \<open>A resource value: the pointer held by a non-nil \<^verbatim>\<open>Resource\<close> interface.\<close>

type_synonym Resource = nat

typedecl Blueprint

record Config =
  Blueprint :: "Blueprint option"
  Resources :: "Resource list"

type_synonym 'v store = "Resource \<Rightarrow> 'v ResourceInfo_scheme"

record 'v memory =
  config :: Config
  objects :: "'v store"

text \<open>
  The error values of the package. \<open>ErrorWANExists\<close> is a package variable declared
  outside the two source files; \<open>errors_New\<close> and \<open>xerrors_Errorf\<close> are the values built
  by \<^verbatim>\<open>errors.New\<close> and by \<^verbatim>\<open>xerrors.Errorf\<close> with a \<^verbatim>\<open>%w\<close> verb (message,
  wrapped error).
\<close>

datatype error =
    ResourceNotFoundError string
  | ResourceExistsError string
  | ErrorWANExists
  | errors_New string
  | xerrors_Errorf string "error option"

datatype 'a outcome = Panics | Returns 'a

subsection \<open>Library functions the code calls\<close>

text \<open>
  \<^verbatim>\<open>strings.Split(s, sep)\<close> for a one-byte separator: the pieces of \<open>s\<close> between
  all occurrences of \<open>sep\<close>, one more piece than there are separators (so never the
  empty slice).
\<close>

fun Split :: "string \<Rightarrow> char \<Rightarrow> string list" where
  "Split [] sep = [[]]"
| "Split (c # cs) sep =
     (if c = sep then [] # Split cs sep
      else (case Split cs sep of [] \<Rightarrow> [[c]] | p # ps \<Rightarrow> (c # p) # ps))"

text \<open>Indexing a slice: out of range is a run-time panic.\<close>

definition index :: "'a list \<Rightarrow> nat \<Rightarrow> 'a outcome" where
  "index xs i = (if i < length xs then Returns (xs ! i) else Panics)"

text \<open>
  \<^verbatim>\<open>xerrors.Is(err, target)\<close> for a non-nil comparable target: it walks the chain
  of \<open>err\<close> (an error built with \<^verbatim>\<open>%w\<close> unwraps to the error it wraps) and
  compares each error of the chain with the target by \<^verbatim>\<open>==\<close>, that is, same dynamic
  type and equal fields. None of the error types of the package has an \<^verbatim>\<open>Is\<close>
  method. A nil \<open>err\<close> matches nothing. The only target the code passes is the zero
  value \<^verbatim>\<open>ResourceNotFoundError{}\<close>, here \<open>ResourceNotFoundError ''''\<close>.
\<close>

fun Is_chain :: "error \<Rightarrow> error \<Rightarrow> bool" where
  "Is_chain (xerrors_Errorf msg w) target =
     (xerrors_Errorf msg w = target \<or>
      (case w of None \<Rightarrow> False | Some e \<Rightarrow> Is_chain e target))"
| "Is_chain e target = (e = target)"

definition xerrors_Is :: "error option \<Rightarrow> error \<Rightarrow> bool" where
  "xerrors_Is err target = (case err of None \<Rightarrow> False | Some e \<Rightarrow> Is_chain e target)"

text \<open>
  The part of \<^verbatim>\<open>github.com/hashicorp/terraform/dag\<close> that is used: a graph is a set
  of vertices and a set of edges. A vertex is any interface value, here a resource
  (identified by its pointer) or \<^verbatim>\<open>nil\<close> (\<open>None\<close>). \<^verbatim>\<open>Add\<close> puts a vertex into
  the vertex set; \<^verbatim>\<open>Connect\<close> puts an edge into the edge set, unless it is there
  already, and into the derived up and down adjacency maps; it does not touch the
  vertex set and checks nothing, so it accepts a \<^verbatim>\<open>nil\<close> source and an edge that
  closes a cycle.
\<close>

type_synonym Vertex = "Resource option"

type_synonym Edge = "Vertex \<times> Vertex"

record AcyclicGraph =
  vertices :: "Vertex set"
  edges :: "Edge set"

definition empty_graph :: AcyclicGraph where
  "empty_graph = \<lparr>vertices = {}, edges = {}\<rparr>"

definition Add :: "AcyclicGraph \<Rightarrow> Vertex \<Rightarrow> AcyclicGraph" where
  "Add g v = g\<lparr>vertices := insert v (vertices g)\<rparr>"

definition BasicEdge :: "Vertex \<Rightarrow> Vertex \<Rightarrow> Edge" where
  "BasicEdge source target = (source, target)"

definition Connect :: "AcyclicGraph \<Rightarrow> Edge \<Rightarrow> AcyclicGraph" where
  "Connect g e = g\<lparr>edges := insert e (edges g)\<rparr>"

subsection \<open>The registry\<close>

text \<open>
  \<^verbatim>\<open>FindResource\<close>: the address is split at every \<^verbatim>\<open>.\<close>; the loop compares
  \<^verbatim>\<open>parts[0]\<close> with the type and, only when that matches, \<^verbatim>\<open>parts[1]\<close> with the
  name.
\<close>

fun FindResource_loop ::
  "'v memory \<Rightarrow> string list \<Rightarrow> string \<Rightarrow> Resource list \<Rightarrow>
    (Resource option \<times> error option) outcome \<times> 'v memory" where
  "FindResource_loop m parts name [] =
     (Returns (None, Some (ResourceNotFoundError name)), m)"
| "FindResource_loop m parts name (r # rs) =
     (case index parts 0 of
        Panics \<Rightarrow> (Panics, m)
      | Returns p0 \<Rightarrow>
          if Type (objects m r) = p0 then
            (case index parts 1 of
               Panics \<Rightarrow> (Panics, m)
             | Returns p1 \<Rightarrow>
                 if Name (objects m r) = p1 then (Returns (Some r, None), m)
                 else FindResource_loop m parts name rs)
          else FindResource_loop m parts name rs)"

definition FindResource ::
  "'v memory \<Rightarrow> string \<Rightarrow> (Resource option \<times> error option) outcome \<times> 'v memory" where
  "FindResource m name =
     FindResource_loop m (Split name CHR ''.'') name (Resources (config m))"

text \<open>The address built by \<^verbatim>\<open>fmt.Sprintf("%s.%s", r.Info().Type, r.Info().Name)\<close>.\<close>

definition address :: "'v memory \<Rightarrow> Resource \<Rightarrow> string" where
  "address m r = Type (objects m r) @ ''.'' @ Name (objects m r)"

definition AddResource :: "'v memory \<Rightarrow> Resource \<Rightarrow> error option outcome \<times> 'v memory" where
  "AddResource m r =
     (case FindResource m (address m r) of
        (Panics, m1) \<Rightarrow> (Panics, m1)
      | (Returns (found, err), m1) \<Rightarrow>
          if err \<noteq> None \<and> xerrors_Is err (ResourceNotFoundError '''') then
            (Returns (Some (ResourceExistsError (Name (objects m1 r)))), m1)
          else
            (Returns None,
             m1\<lparr>config := (config m1)\<lparr>Resources := Resources (config m1) @ [r]\<rparr>\<rparr>))"

definition ResourceCount :: "'v memory \<Rightarrow> nat" where
  "ResourceCount m = length (Resources (config m))"

subsection \<open>The graph builder\<close>

fun add_vertices :: "AcyclicGraph \<Rightarrow> Resource list \<Rightarrow> AcyclicGraph" where
  "add_vertices g [] = g"
| "add_vertices g (r # rs) = add_vertices (Add g (Some r)) rs"

text \<open>
  The inner loop over \<^verbatim>\<open>resource.Info().DependsOn\<close>: \<open>Inr e\<close> is the early
  \<^verbatim>\<open>return nil, e\<close>, \<open>Inl g\<close> the graph after the loop.
\<close>

fun connect_dependencies ::
  "'v memory \<Rightarrow> AcyclicGraph \<Rightarrow> Resource \<Rightarrow> string list \<Rightarrow>
    (AcyclicGraph + error) outcome \<times> 'v memory" where
  "connect_dependencies m g resource [] = (Returns (Inl g), m)"
| "connect_dependencies m g resource (d # ds) =
     (case FindResource m d of
        (Panics, m1) \<Rightarrow> (Panics, m1)
      | (Returns (dependency, err), m1) \<Rightarrow>
          if xerrors_Is err (ResourceNotFoundError '''') then
            (Returns (Inr (xerrors_Errorf ''Could not build graph from resources: %w'' err)), m1)
          else
            connect_dependencies m1 (Connect g (BasicEdge dependency (Some resource)))
              resource ds)"

fun connect_resources ::
  "'v memory \<Rightarrow> AcyclicGraph \<Rightarrow> Resource list \<Rightarrow> (AcyclicGraph + error) outcome \<times> 'v memory" where
  "connect_resources m g [] = (Returns (Inl g), m)"
| "connect_resources m g (resource # rs) =
     (case connect_dependencies m g resource (DependsOn (objects m resource)) of
        (Panics, m1) \<Rightarrow> (Panics, m1)
      | (Returns (Inr e), m1) \<Rightarrow> (Returns (Inr e), m1)
      | (Returns (Inl g1), m1) \<Rightarrow> connect_resources m1 g1 rs)"

definition DoYaLikeDAGs ::
  "'v memory \<Rightarrow> (AcyclicGraph option \<times> error option) outcome \<times> 'v memory" where
  "DoYaLikeDAGs m =
     (let graph = add_vertices empty_graph (Resources (config m)) in
      case connect_resources m graph (Resources (config m)) of
        (Panics, m1) \<Rightarrow> (Panics, m1)
      | (Returns (Inr e), m1) \<Rightarrow> (Returns (None, Some e), m1)
      | (Returns (Inl g), m1) \<Rightarrow> (Returns (Some g, None), m1))"

subsection \<open>The loader\<close>

text \<open>
  \<^verbatim>\<open>New\<close> and \<^verbatim>\<open>ParseHCLFile\<close> call code that is not in the two source files: the
  HCL parser and decoder (external libraries), the constructors \<^verbatim>\<open>NewCluster\<close>,
  \<^verbatim>\<open>NewNetwork\<close>, ... and the type tags \<^verbatim>\<open>TypeCluster\<close>, \<^verbatim>\<open>TypeNetwork\<close>, ...
  (declared elsewhere in the package). They are parameters, collected in a record:
  a constructor takes the name and the store and returns the new pointer and the store
  with the new struct; \<open>DecodeBody\<close> is \<^verbatim>\<open>gohcl.DecodeBody\<close> on the block's body and the
  global evaluation context, returning the text of the diagnostics when they hold an
  error; \<open>absolutePaths\<close> and \<open>setSubnet\<close> are the writes to the variant's own fields
  (the paths made absolute against the file, the subnet of a network).
\<close>

record 'b Block =
  BlockType :: string
  Labels :: "string list"
  Body :: 'b

datatype 'b parsed = HasErrors string | OtherBody | SyntaxBody "'b Block list"

type_synonym 'v constructor = "string \<Rightarrow> 'v store \<Rightarrow> Resource \<times> 'v store"

record ('b, 'v) loader =
  ParseHCL :: "string \<Rightarrow> 'b parsed"
  DecodeBody :: "'b \<Rightarrow> Resource \<Rightarrow> 'v store \<Rightarrow> string option \<times> 'v store"
  absolutePaths :: "ResourceType \<Rightarrow> string \<Rightarrow> 'v \<Rightarrow> 'v"
  setSubnet :: "string \<Rightarrow> 'v \<Rightarrow> 'v"
  TypeCluster :: ResourceType
  TypeNetwork :: ResourceType
  TypeHelm :: ResourceType
  TypeK8sConfig :: ResourceType
  TypeIngress :: ResourceType
  TypeContainer :: ResourceType
  TypeDocs :: ResourceType
  TypeExecLocal :: ResourceType
  TypeExecRemote :: ResourceType
  NewCluster :: "'v constructor"
  NewNetwork :: "'v constructor"
  NewHelm :: "'v constructor"
  NewK8sConfig :: "'v constructor"
  NewIngress :: "'v constructor"
  NewContainer :: "'v constructor"
  NewDocs :: "'v constructor"
  NewExecLocal :: "'v constructor"
  NewExecRemote :: "'v constructor"

text \<open>
  \<^verbatim>\<open>New\<close>: the empty \<^verbatim>\<open>Config\<close> is made first; the default network is built and
  its subnet set, and \<open>c\<close> is returned as it was made.
\<close>

definition New :: "('b, 'v) loader \<Rightarrow> 'v store \<Rightarrow> 'v memory" where
  "New L st =
     (let c = \<lparr>Blueprint = None, Resources = []\<rparr>;
          (wan, st1) = NewNetwork L ''wan'' st;
          st2 = st1(wan := ResourceInfo.more_update (setSubnet L ''10.200.0.0/16'') (st1 wan))
      in \<lparr>config = c, objects = st2\<rparr>)"

definition decodeBody ::
  "('b, 'v) loader \<Rightarrow> 'b Block \<Rightarrow> Resource \<Rightarrow> 'v store \<Rightarrow> error option \<times> 'v store" where
  "decodeBody L b p st =
     (case DecodeBody L (Body b) p st of
        (Some diag, st1) \<Rightarrow> (Some (errors_New diag), st1)
      | (None, st1) \<Rightarrow> (None, st1))"

text \<open>
  What every case of the switch does with its block: build the resource from the first
  label, decode the body into it (an error is returned to the caller), make the paths
  of the variant absolute (\<open>paths\<close>, the identity for the cases that have none), and hand
  the resource to \<^verbatim>\<open>AddResource\<close>, whose error is dropped. The result \<open>Some e\<close> is
  \<^verbatim>\<open>return e\<close>; \<open>None\<close> goes on with the next block.
\<close>

definition add_block ::
  "('b, 'v) loader \<Rightarrow> 'b Block \<Rightarrow> 'v constructor \<Rightarrow> ('v \<Rightarrow> 'v) \<Rightarrow> 'v memory \<Rightarrow>
    error option outcome \<times> 'v memory" where
  "add_block L b new paths m =
     (case index (Labels b) 0 of
        Panics \<Rightarrow> (Panics, m)
      | Returns label \<Rightarrow>
          (case new label (objects m) of
             (x, st1) \<Rightarrow>
               (case decodeBody L b x st1 of
                  (Some err, st2) \<Rightarrow> (Returns (Some err), m\<lparr>objects := st2\<rparr>)
                | (None, st2) \<Rightarrow>
                    (case AddResource
                            (m\<lparr>objects := st2(x := ResourceInfo.more_update paths (st2 x))\<rparr>) x of
                       (Panics, m1) \<Rightarrow> (Panics, m1)
                     | (Returns dropped, m1) \<Rightarrow> (Returns None, m1)))))"

definition ParseHCLFile_block ::
  "('b, 'v) loader \<Rightarrow> string \<Rightarrow> 'b Block \<Rightarrow> 'v memory \<Rightarrow> error option outcome \<times> 'v memory" where
  "ParseHCLFile_block L file b m =
     (if BlockType b = TypeCluster L then add_block L b (NewCluster L) id m
      else if BlockType b = TypeNetwork L then
        (case index (Labels b) 0 of
           Panics \<Rightarrow> (Panics, m)
         | Returns label \<Rightarrow>
             if label = ''wan'' then (Returns (Some ErrorWANExists), m)
             else add_block L b (NewNetwork L) id m)
      else if BlockType b = TypeHelm L then
        add_block L b (NewHelm L) (absolutePaths L (TypeHelm L) file) m
      else if BlockType b = TypeK8sConfig L then
        add_block L b (NewK8sConfig L) (absolutePaths L (TypeK8sConfig L) file) m
      else if BlockType b = TypeIngress L then add_block L b (NewIngress L) id m
      else if BlockType b = TypeContainer L then
        add_block L b (NewContainer L) (absolutePaths L (TypeContainer L) file) m
      else if BlockType b = TypeDocs L then
        add_block L b (NewDocs L) (absolutePaths L (TypeDocs L) file) m
      else if BlockType b = TypeExecLocal L then
        add_block L b (NewExecLocal L) (absolutePaths L (TypeExecLocal L) file) m
      else if BlockType b = TypeExecRemote L then
        add_block L b (NewExecRemote L) (absolutePaths L (TypeExecRemote L) file) m
      else (Returns None, m))"

fun ParseHCLFile_blocks ::
  "('b, 'v) loader \<Rightarrow> string \<Rightarrow> 'b Block list \<Rightarrow> 'v memory \<Rightarrow>
    error option outcome \<times> 'v memory" where
  "ParseHCLFile_blocks L file [] m = (Returns None, m)"
| "ParseHCLFile_blocks L file (b # bs) m =
     (case ParseHCLFile_block L file b m of
        (Panics, m1) \<Rightarrow> (Panics, m1)
      | (Returns (Some e), m1) \<Rightarrow> (Returns (Some e), m1)
      | (Returns None, m1) \<Rightarrow> ParseHCLFile_blocks L file bs m1)"

definition ParseHCLFile ::
  "('b, 'v) loader \<Rightarrow> string \<Rightarrow> 'v memory \<Rightarrow> error option outcome \<times> 'v memory" where
  "ParseHCLFile L file m =
     (case ParseHCL L file of
        HasErrors diag \<Rightarrow> (Returns (Some (errors_New diag)), m)
      | OtherBody \<Rightarrow> (Returns (Some (errors_New ''Error getting body'')), m)
      | SyntaxBody blocks \<Rightarrow> ParseHCLFile_blocks L file blocks m)"

subsection \<open>Notions the properties are stated with\<close>

text \<open>
  An address \<open>d\<close> resolves to \<open>D\<close> when \<^verbatim>\<open>FindResource\<close> returns \<open>D\<close> and no
  error for it. The dependency relation of a registry: \<open>r\<close> depends on \<open>D\<close> when \<open>r\<close> is
  registered and one of its \<^verbatim>\<open>DependsOn\<close> addresses resolves to \<open>D\<close>.
\<close>

definition resolved :: "'v memory \<Rightarrow> string \<Rightarrow> Resource \<Rightarrow> bool" where
  "resolved m d D = (fst (FindResource m d) = Returns (Some D, None))"

definition depends_on :: "'v memory \<Rightarrow> (Resource \<times> Resource) set" where
  "depends_on m =
     {(r, D). r \<in> set (Resources (config m)) \<and>
        (\<exists>d \<in> set (DependsOn (objects m r)). resolved m d D)}"

text \<open>
  The vertex \<^verbatim>\<open>DoYaLikeDAGs\<close> uses as the source of the edge for the address \<open>d\<close>
  (the first result of \<^verbatim>\<open>FindResource\<close>), and the addresses for which it goes on to
  \<^verbatim>\<open>Connect\<close>: no panic, and no error that \<^verbatim>\<open>xerrors.Is\<close> matches.
\<close>

definition dependency :: "'v memory \<Rightarrow> string \<Rightarrow> Vertex" where
  "dependency m d =
     (case fst (FindResource m d) of Panics \<Rightarrow> None | Returns (dep, err) \<Rightarrow> dep)"

definition connects :: "'v memory \<Rightarrow> string \<Rightarrow> bool" where
  "connects m d =
     (case fst (FindResource m d) of
        Panics \<Rightarrow> False
      | Returns (dep, err) \<Rightarrow> \<not> xerrors_Is err (ResourceNotFoundError ''''))"

subsection \<open>Example registries\<close>

text \<open>
  A freshly built \<^verbatim>\<open>ResourceInfo\<close>, and the memory in which pointer \<open>p\<close> holds the
  \<open>p\<close>-th of the given structs and the registry holds the pointers \<open>rs\<close>.
\<close>

definition resource_info :: "ResourceType \<Rightarrow> string \<Rightarrow> string list \<Rightarrow> ResourceInfo" where
  "resource_info t n ds = \<lparr>Name = n, Type = t, Status = PendingCreation, DependsOn = ds\<rparr>"

definition memory_of :: "Resource list \<Rightarrow> ResourceInfo list \<Rightarrow> unit memory" where
  "memory_of rs infos =
     \<lparr>config = \<lparr>Blueprint = None, Resources = rs\<rparr>,
      objects = (\<lambda>p. if p < length infos then infos ! p else resource_info [] [] [])\<rparr>"

text \<open>
  The example of the specification: \<^verbatim>\<open>container.a\<close> depends on \<^verbatim>\<open>container.b\<close> and
  \<^verbatim>\<open>container.b\<close> on \<^verbatim>\<open>container.a\<close>.
\<close>

definition cyclic_registry :: "unit memory" where
  "cyclic_registry =
     memory_of [0, 1]
       [resource_info ''container'' ''a'' [''container.b''],
        resource_info ''container'' ''b'' [''container.a'']]"

text \<open>
  An example loader: the body of a block is its \<^verbatim>\<open>depends_on\<close> list, decoding stores
  it in the resource, and the constructor of each type builds its struct at a pointer
  of its own. The file \<^verbatim>\<open>stack.hcl\<close> declares a cluster, then a network named
  \<^verbatim>\<open>wan\<close>, then a container; \<open>after_cluster\<close> is the memory once the cluster block is
  loaded into the empty registry.
\<close>

definition example_new :: "ResourceType \<Rightarrow> Resource \<Rightarrow> unit constructor" where
  "example_new ty p name st = (p, st(p := resource_info ty name []))"

definition example_blocks :: "string list Block list" where
  "example_blocks =
     [\<lparr>BlockType = ''cluster'', Labels = [''k3s''], Body = [''network.lan'']\<rparr>,
      \<lparr>BlockType = ''network'', Labels = [''wan''], Body = []\<rparr>,
      \<lparr>BlockType = ''container'', Labels = [''web''], Body = [''network.wan'']\<rparr>]"

definition example_loader :: "(string list, unit) loader" where
  "example_loader =
     \<lparr>ParseHCL = (\<lambda>file. if file = ''stack.hcl'' then SyntaxBody example_blocks
                          else HasErrors ''no such file''),
      DecodeBody = (\<lambda>body p st. (None, st(p := (st p)\<lparr>DependsOn := body\<rparr>))),
      absolutePaths = (\<lambda>ty file v. v),
      setSubnet = (\<lambda>subnet v. v),
      TypeCluster = ''cluster'',
      TypeNetwork = ''network'',
      TypeHelm = ''helm'',
      TypeK8sConfig = ''k8s_config'',
      TypeIngress = ''ingress'',
      TypeContainer = ''container'',
      TypeDocs = ''docs'',
      TypeExecLocal = ''exec_local'',
      TypeExecRemote = ''exec_remote'',
      NewCluster = example_new ''cluster'' 0,
      NewNetwork = example_new ''network'' 1,
      NewHelm = example_new ''helm'' 2,
      NewK8sConfig = example_new ''k8s_config'' 3,
      NewIngress = example_new ''ingress'' 4,
      NewContainer = example_new ''container'' 5,
      NewDocs = example_new ''docs'' 6,
      NewExecLocal = example_new ''exec_local'' 7,
      NewExecRemote = example_new ''exec_remote'' 8\<rparr>"

definition after_cluster :: "unit memory" where
  "after_cluster =
     \<lparr>config = \<lparr>Blueprint = None, Resources = [0]\<rparr>,
      objects = (objects (memory_of [] []))(0 := resource_info ''cluster'' ''k3s'' [''network.lan''])\<rparr>"


section \<open>Properties\<close>

subsection \<open>Splitting an address\<close>

lemma Split_not_Nil: "Split s sep \<noteq> []"
  by (induction s) (auto split: list.splits)

lemma Split_no_sep: "sep \<notin> set s \<Longrightarrow> Split s sep = [s]"
  by (induction s) auto

lemma Split_at_sep: "sep \<notin> set t \<Longrightarrow> Split (t @ sep # rest) sep = t # Split rest sep"
  by (induction t) auto

lemma length_Split: "length (Split s sep) = Suc (length (filter (\<lambda>c. c = sep) s))"
  by (induction s) (auto split: list.splits)

lemma Split_with_sep:
  assumes "sep \<in> set s"
  shows "\<exists>p0 p1 ps. Split s sep = p0 # p1 # ps"
proof -
  from assms have "filter (\<lambda>c. c = sep) s \<noteq> []"
    by (simp add: filter_empty_conv)
  then have "2 \<le> length (Split s sep)"
    by (cases "filter (\<lambda>c. c = sep) s") (auto simp: length_Split)
  then show ?thesis
    by (cases "Split s sep" rule: list.exhaust; simp; cases "tl (Split s sep)"; auto)
qed

lemma Split_parts_no_sep: "p \<in> set (Split s sep) \<Longrightarrow> sep \<notin> set p"
proof (induction s arbitrary: p)
  case Nil
  then show ?case by simp
next
  case (Cons c cs)
  show ?case
  proof (cases "c = sep")
    case True
    with Cons show ?thesis by auto
  next
    case False
    obtain q qs where q: "Split cs sep = q # qs"
      using Split_not_Nil [of cs sep] by (cases "Split cs sep") auto
    with False Cons.prems have "p = c # q \<or> p \<in> set qs" by auto
    then show ?thesis
    proof
      assume "p = c # q"
      moreover have "sep \<notin> set q" using Cons.IH [of q] q by simp
      ultimately show ?thesis using False by auto
    next
      assume "p \<in> set qs"
      then show ?thesis using Cons.IH [of p] q by simp
    qed
  qed
qed

lemma Split_address:
  assumes "CHR ''.'' \<notin> set t"
  shows "Split (t @ ''.'' @ rest) CHR ''.'' = t # Split rest CHR ''.''"
  using Split_at_sep [OF assms, of rest] by simp

subsection \<open>The lookup loop\<close>

lemma FindResource_loop_memory: "snd (FindResource_loop m parts name rs) = m"
  by (induction rs) (auto simp: index_def split: outcome.splits)

lemma FindResource_memory: "snd (FindResource m name) = m"
  by (simp add: FindResource_def FindResource_loop_memory)

text \<open>With two parts or more the loop is a search for the first match and cannot panic.\<close>

lemma FindResource_loop_two:
  "FindResource_loop m (p0 # p1 # ps) name rs =
     (case find (\<lambda>r. Type (objects m r) = p0 \<and> Name (objects m r) = p1) rs of
        None \<Rightarrow> (Returns (None, Some (ResourceNotFoundError name)), m)
      | Some r \<Rightarrow> (Returns (Some r, None), m))"
  by (induction rs) (auto simp: index_def)

text \<open>With one part the loop panics at the first resource whose type is that part.\<close>

lemma FindResource_loop_one:
  "FindResource_loop m [p0] name rs =
     (if \<exists>r \<in> set rs. Type (objects m r) = p0 then (Panics, m)
      else (Returns (None, Some (ResourceNotFoundError name)), m))"
  by (induction rs) (auto simp: index_def)

lemma FindResource_with_sep:
  assumes "CHR ''.'' \<in> set name"
  shows "FindResource m name = (Returns (None, Some (ResourceNotFoundError name)), m) \<or>
    (\<exists>r. FindResource m name = (Returns (Some r, None), m))"
proof -
  obtain p0 p1 ps where "Split name CHR ''.'' = p0 # p1 # ps"
    using Split_with_sep [OF assms] by blast
  then show ?thesis
    by (auto simp: FindResource_def FindResource_loop_two split: option.splits)
qed

lemma find_unique:
  assumes "r \<in> set rs" and "P r" and "\<forall>r' \<in> set rs. P r' \<longrightarrow> r' = r"
  shows "find P rs = Some r"
  using assms(1,3)
proof (induction rs)
  case Nil
  then show ?case by simp
next
  case (Cons a rs)
  show ?case
  proof (cases "P a")
    case True
    with Cons.prems(2) have "a = r" by simp
    with True show ?thesis by simp
  next
    case False
    with assms(2) have "a \<noteq> r" by auto
    with Cons.prems(1) have "r \<in> set rs" by simp
    moreover from Cons.prems(2) have "\<forall>r' \<in> set rs. P r' \<longrightarrow> r' = r" by simp
    ultimately have "find P rs = Some r" by (rule Cons.IH)
    with False show ?thesis by simp
  qed
qed

text \<open>An address of two or three separator-free segments: only the first two count.\<close>

lemma FindResource_type_name:
  assumes "CHR ''.'' \<notin> set t" "CHR ''.'' \<notin> set n"
  shows "FindResource m (t @ ''.'' @ n) =
     (case find (\<lambda>r. Type (objects m r) = t \<and> Name (objects m r) = n) (Resources (config m)) of
        None \<Rightarrow> (Returns (None, Some (ResourceNotFoundError (t @ ''.'' @ n))), m)
      | Some r \<Rightarrow> (Returns (Some r, None), m))"
  unfolding FindResource_def Split_address [OF assms(1)] Split_no_sep [OF assms(2)]
  by (rule FindResource_loop_two)

lemma FindResource_type_name_rest:
  assumes "CHR ''.'' \<notin> set t" "CHR ''.'' \<notin> set n"
  shows "FindResource m (t @ ''.'' @ n @ ''.'' @ rest) =
     (case find (\<lambda>r. Type (objects m r) = t \<and> Name (objects m r) = n) (Resources (config m)) of
        None \<Rightarrow> (Returns (None, Some (ResourceNotFoundError (t @ ''.'' @ n @ ''.'' @ rest))), m)
      | Some r \<Rightarrow> (Returns (Some r, None), m))"
  unfolding FindResource_def Split_address [OF assms(1)] Split_address [OF assms(2)]
  by (rule FindResource_loop_two)

text \<open>The name of a resource that a lookup returns is one segment: it holds no separator.\<close>

lemma FindResource_found_no_sep:
  assumes "FindResource m a = (Returns (Some r, None), m)"
  shows "CHR ''.'' \<notin> set (Name (objects m r))"
proof (cases "CHR ''.'' \<in> set a")
  case False
  then have "Split a CHR ''.'' = [a]" by (rule Split_no_sep)
  with assms show ?thesis
    by (simp add: FindResource_def FindResource_loop_one split: if_splits)
next
  case True
  then obtain p0 p1 ps where sp: "Split a CHR ''.'' = p0 # p1 # ps"
    using Split_with_sep by blast
  then have "p1 \<in> set (Split a CHR ''.'')" by simp
  then have p1: "CHR ''.'' \<notin> set p1" by (rule Split_parts_no_sep)
  from assms sp
  have "find (\<lambda>r. Type (objects m r) = p0 \<and> Name (objects m r) = p1) (Resources (config m)) = Some r"
    by (simp add: FindResource_def FindResource_loop_two split: option.splits)
  then have "Name (objects m r) = p1"
    by (auto simp: find_Some_iff)
  with p1 show ?thesis by simp
qed

text \<open>
  C4 (amended). The code has no \<^verbatim>\<open>MalformedAddress\<close> error. For an address without
  a separator, and a registry in which no resource has that address as its type,
  \<^verbatim>\<open>FindResource\<close> returns no resource and \<open>ResourceNotFoundError\<close> of the address, and
  does not panic.
\<close>

theorem FindResource_no_separator:
  assumes "CHR ''.'' \<notin> set name"
    and "\<forall>r \<in> set (Resources (config m)). Type (objects m r) \<noteq> name"
  shows "FindResource m name = (Returns (None, Some (ResourceNotFoundError name)), m)"
  using assms(2)
  by (simp add: FindResource_def Split_no_sep [OF assms(1)] FindResource_loop_one)

theorem FindResource_no_separator_witness:
  "CHR ''.'' \<notin> set ''cluster'' \<and>
   Type (objects (memory_of [0] [resource_info ''network'' ''wan'' []]) 0) \<noteq> ''cluster'' \<and>
   FindResource (memory_of [0] [resource_info ''network'' ''wan'' []]) ''cluster''
     = (Returns (None, Some (ResourceNotFoundError ''cluster'')),
        memory_of [0] [resource_info ''network'' ''wan'' []])"
  using FindResource_no_separator
    [of "''cluster''" "memory_of [0] [resource_info ''network'' ''wan'' []]"]
  by (simp add: memory_of_def resource_info_def)

text \<open>
  The claim as stated fails: on the empty registry the error for \<^verbatim>\<open>"cluster"\<close> is
  \<open>ResourceNotFoundError\<close>, and on a registry that holds \<^verbatim>\<open>cluster.k3s\<close> the lookup
  of \<^verbatim>\<open>"cluster"\<close> indexes \<^verbatim>\<open>parts[1]\<close> out of range and panics.
\<close>

theorem FindResource_no_separator_counterexample:
  "FindResource (memory_of [] []) ''cluster''
     = (Returns (None, Some (ResourceNotFoundError ''cluster'')), memory_of [] []) \<and>
   FindResource (memory_of [0] [resource_info ''cluster'' ''k3s'' []]) ''cluster''
     = (Panics, memory_of [0] [resource_info ''cluster'' ''k3s'' []])"
  by (simp add: FindResource_def memory_of_def resource_info_def index_def)

text \<open>
  C7 (amended). \<^verbatim>\<open>FindResource\<close> splits the address at every separator. The segment
  before the first separator is compared with \<^verbatim>\<open>Type\<close> and the segment between the
  first and the second separator with \<^verbatim>\<open>Name\<close> (the whole remainder only when it
  holds no separator); what follows a second separator is ignored. The lookup returns
  the first registered resource that matches both, and a resource it returns never has
  a separator in its name.
\<close>

theorem FindResource_segments:
  assumes "CHR ''.'' \<notin> set t" and "CHR ''.'' \<notin> set n"
  shows "FindResource m (t @ ''.'' @ n) =
     (case find (\<lambda>r. Type (objects m r) = t \<and> Name (objects m r) = n) (Resources (config m)) of
        None \<Rightarrow> (Returns (None, Some (ResourceNotFoundError (t @ ''.'' @ n))), m)
      | Some r \<Rightarrow> (Returns (Some r, None), m))
   \<and> FindResource m (t @ ''.'' @ n @ ''.'' @ rest) =
     (case find (\<lambda>r. Type (objects m r) = t \<and> Name (objects m r) = n) (Resources (config m)) of
        None \<Rightarrow> (Returns (None, Some (ResourceNotFoundError (t @ ''.'' @ n @ ''.'' @ rest))), m)
      | Some r \<Rightarrow> (Returns (Some r, None), m))
   \<and> (\<forall>a r. FindResource m a = (Returns (Some r, None), m) \<longrightarrow>
         CHR ''.'' \<notin> set (Name (objects m r)))"
  using FindResource_type_name [OF assms] FindResource_type_name_rest [OF assms]
    FindResource_found_no_sep [of m]
  by blast

text \<open>With \<^verbatim>\<open>network.a\<close> registered, the address \<^verbatim>\<open>network.a.b\<close> finds it.\<close>

theorem FindResource_segments_witness:
  "CHR ''.'' \<notin> set ''network'' \<and> CHR ''.'' \<notin> set ''a'' \<and>
   FindResource (memory_of [0, 1] [resource_info ''network'' ''a.b'' [], resource_info ''network'' ''a'' []])
       ''network.a''
     = (Returns (Some 1, None),
        memory_of [0, 1] [resource_info ''network'' ''a.b'' [], resource_info ''network'' ''a'' []]) \<and>
   FindResource (memory_of [0, 1] [resource_info ''network'' ''a.b'' [], resource_info ''network'' ''a'' []])
       ''network.a.b''
     = (Returns (Some 1, None),
        memory_of [0, 1] [resource_info ''network'' ''a.b'' [], resource_info ''network'' ''a'' []])"
  using FindResource_segments [of "''network''" "''a''"
      "memory_of [0, 1] [resource_info ''network'' ''a.b'' [], resource_info ''network'' ''a'' []]"
      "''b''"]
  by (simp add: memory_of_def resource_info_def)

text \<open>
  The claim as stated fails: the registered resource of type \<^verbatim>\<open>network\<close> and name
  \<^verbatim>\<open>a.b\<close> is not found by its address \<^verbatim>\<open>network.a.b\<close>.
\<close>

theorem FindResource_segments_counterexample:
  "FindResource (memory_of [0] [resource_info ''network'' ''a.b'' []]) ''network.a.b''
     = (Returns (None, Some (ResourceNotFoundError ''network.a.b'')),
        memory_of [0] [resource_info ''network'' ''a.b'' []])"
  by (simp add: FindResource_def memory_of_def resource_info_def index_def)


subsection \<open>Adding a resource\<close>

text \<open>
  The address that \<^verbatim>\<open>AddResource\<close> looks up always holds a separator, so the lookup
  cannot panic; its error, when there is one, is \<open>ResourceNotFoundError\<close> of a non-empty
  address, which is not equal to \<open>ResourceNotFoundError ''''\<close>. Hence the error branch
  is never taken: every call appends.
\<close>

lemma AddResource_appends:
  "AddResource m r =
     (Returns None, m\<lparr>config := (config m)\<lparr>Resources := Resources (config m) @ [r]\<rparr>\<rparr>)"
proof -
  have dot: "CHR ''.'' \<in> set (address m r)"
    by (simp add: address_def)
  then have ne: "address m r \<noteq> []" by auto
  from FindResource_with_sep [OF dot, of m] show ?thesis
  proof
    assume "FindResource m (address m r) =
      (Returns (None, Some (ResourceNotFoundError (address m r))), m)"
    then show ?thesis using ne by (simp add: AddResource_def xerrors_Is_def)
  next
    assume "\<exists>r'. FindResource m (address m r) = (Returns (Some r', None), m)"
    then show ?thesis by (auto simp: AddResource_def)
  qed
qed

text \<open>
  C1 (the code departs from the claim). A registry holds \<^verbatim>\<open>network.a\<close> (pointer 0);
  a second resource \<^verbatim>\<open>network.a\<close> (pointer 1) is added. The claim asks for a
  \<open>ResourceExistsError\<close> and an unchanged count; the code returns no error and the
  registry holds two resources with the same address.
\<close>

theorem AddResource_duplicate_appended:
  "AddResource
     (memory_of [0] [resource_info ''network'' ''a'' [], resource_info ''network'' ''a'' []]) 1
   = (Returns None,
      memory_of [0, 1] [resource_info ''network'' ''a'' [], resource_info ''network'' ''a'' []])
   \<and> ResourceCount (snd (AddResource
     (memory_of [0] [resource_info ''network'' ''a'' [], resource_info ''network'' ''a'' []]) 1))
     = 2"
  by (simp add: AddResource_appends memory_of_def ResourceCount_def)

subsection \<open>Looking up what was added\<close>

lemma FindResource_registered:
  assumes "r \<in> set (Resources (config m))"
    and "CHR ''.'' \<notin> set (Type (objects m r))"
    and "CHR ''.'' \<notin> set (Name (objects m r))"
    and "\<forall>r' \<in> set (Resources (config m)).
           Type (objects m r') = Type (objects m r) \<and> Name (objects m r') = Name (objects m r)
           \<longrightarrow> r' = r"
  shows "FindResource m (address m r) = (Returns (Some r, None), m)"
proof -
  let ?P = "\<lambda>r'. Type (objects m r') = Type (objects m r) \<and> Name (objects m r') = Name (objects m r)"
  have "find ?P (Resources (config m)) = Some r"
    using assms(1) _ assms(4) by (rule find_unique) simp
  moreover have "FindResource m (address m r) =
     (case find ?P (Resources (config m)) of
        None \<Rightarrow> (Returns (None, Some (ResourceNotFoundError (address m r))), m)
      | Some r \<Rightarrow> (Returns (Some r, None), m))"
    unfolding address_def by (rule FindResource_type_name [OF assms(2,3)])
  ultimately show ?thesis by simp
qed

text \<open>
  C5 (amended). Let \<open>r\<close> be a resource whose \<^verbatim>\<open>Type\<close> and \<^verbatim>\<open>Name\<close> hold no
  separator, added by \<^verbatim>\<open>AddResource\<close> to a registry in which no other resource has
  the same type and name. Then \<^verbatim>\<open>FindResource\<close> on the address of \<open>r\<close> returns the
  pointer \<open>r\<close> itself and no error. By \<open>FindResource_registered\<close> the same holds in
  every later registry in which \<open>r\<close> is the only resource of its type and name.
\<close>

theorem FindResource_after_AddResource:
  assumes "AddResource m r = (Returns None, m')"
    and "CHR ''.'' \<notin> set (Type (objects m r))"
    and "CHR ''.'' \<notin> set (Name (objects m r))"
    and "\<forall>r' \<in> set (Resources (config m)).
           Type (objects m r') = Type (objects m r) \<and> Name (objects m r') = Name (objects m r)
           \<longrightarrow> r' = r"
  shows "FindResource m' (address m' r) = (Returns (Some r, None), m')"
proof -
  from assms(1) have m': "m' = m\<lparr>config := (config m)\<lparr>Resources := Resources (config m) @ [r]\<rparr>\<rparr>"
    by (simp add: AddResource_appends)
  show ?thesis
  proof (rule FindResource_registered)
    show "r \<in> set (Resources (config m'))" by (simp add: m')
    show "CHR ''.'' \<notin> set (Type (objects m' r))" using assms(2) by (simp add: m')
    show "CHR ''.'' \<notin> set (Name (objects m' r))" using assms(3) by (simp add: m')
    show "\<forall>r' \<in> set (Resources (config m')).
           Type (objects m' r') = Type (objects m' r) \<and> Name (objects m' r') = Name (objects m' r)
           \<longrightarrow> r' = r"
      using assms(4) by (simp add: m')
  qed
qed

theorem FindResource_after_AddResource_witness:
  "AddResource (memory_of [0] [resource_info ''network'' ''wan'' [], resource_info ''cluster'' ''k3s'' []]) 1
     = (Returns None, memory_of [0, 1] [resource_info ''network'' ''wan'' [], resource_info ''cluster'' ''k3s'' []]) \<and>
   FindResource (memory_of [0, 1] [resource_info ''network'' ''wan'' [], resource_info ''cluster'' ''k3s'' []])
       ''cluster.k3s''
     = (Returns (Some 1, None),
        memory_of [0, 1] [resource_info ''network'' ''wan'' [], resource_info ''cluster'' ''k3s'' []])"
proof -
  let ?m = "memory_of [0] [resource_info ''network'' ''wan'' [], resource_info ''cluster'' ''k3s'' []]"
  let ?m' = "memory_of [0, 1] [resource_info ''network'' ''wan'' [], resource_info ''cluster'' ''k3s'' []]"
  have a: "AddResource ?m 1 = (Returns None, ?m')"
    by (simp add: AddResource_appends memory_of_def)
  have t: "CHR ''.'' \<notin> set (Type (objects ?m 1))"
    by (simp add: memory_of_def resource_info_def)
  have n: "CHR ''.'' \<notin> set (Name (objects ?m 1))"
    by (simp add: memory_of_def resource_info_def)
  have u: "\<forall>r' \<in> set (Resources (config ?m)).
      Type (objects ?m r') = Type (objects ?m 1) \<and> Name (objects ?m r') = Name (objects ?m 1)
      \<longrightarrow> r' = 1"
    by (simp add: memory_of_def resource_info_def)
  have "address ?m' 1 = ''cluster.k3s''"
    by (simp add: address_def memory_of_def resource_info_def)
  with FindResource_after_AddResource [OF a t n u] a show ?thesis by simp
qed

text \<open>
  The claim as stated fails twice: the added resource \<^verbatim>\<open>network\<close>, \<^verbatim>\<open>a.b\<close> is not
  found by its address; and after a second \<^verbatim>\<open>network.a\<close> (pointer 1) is added, the
  lookup of \<^verbatim>\<open>network.a\<close> returns the first one (pointer 0), not the resource added.
\<close>

theorem FindResource_after_AddResource_counterexample:
  "AddResource (memory_of [] [resource_info ''network'' ''a.b'' []]) 0
     = (Returns None, memory_of [0] [resource_info ''network'' ''a.b'' []]) \<and>
   FindResource (memory_of [0] [resource_info ''network'' ''a.b'' []]) ''network.a.b''
     = (Returns (None, Some (ResourceNotFoundError ''network.a.b'')),
        memory_of [0] [resource_info ''network'' ''a.b'' []]) \<and>
   AddResource (memory_of [0] [resource_info ''network'' ''a'' [], resource_info ''network'' ''a'' []]) 1
     = (Returns None,
        memory_of [0, 1] [resource_info ''network'' ''a'' [], resource_info ''network'' ''a'' []]) \<and>
   FindResource (memory_of [0, 1] [resource_info ''network'' ''a'' [], resource_info ''network'' ''a'' []])
       ''network.a''
     = (Returns (Some 0, None),
        memory_of [0, 1] [resource_info ''network'' ''a'' [], resource_info ''network'' ''a'' []])"
  by (simp add: AddResource_appends FindResource_def memory_of_def resource_info_def index_def)


subsection \<open>The graph builder reads only\<close>

lemma connect_dependencies_memory: "snd (connect_dependencies m g r ds) = m"
proof (induction ds arbitrary: g)
  case Nil
  then show ?case by simp
next
  case (Cons d ds)
  have "snd (FindResource m d) = m" by (rule FindResource_memory)
  then show ?case using Cons
    by (cases "FindResource m d") (auto split: outcome.splits)
qed

lemma connect_resources_memory: "snd (connect_resources m g rs) = m"
proof (induction rs arbitrary: g)
  case Nil
  then show ?case by simp
next
  case (Cons r rs)
  have "snd (connect_dependencies m g r (DependsOn (objects m r))) = m"
    by (rule connect_dependencies_memory)
  then show ?case using Cons
    by (cases "connect_dependencies m g r (DependsOn (objects m r))")
       (auto split: outcome.splits sum.splits)
qed

text \<open>
  C8. Whatever \<^verbatim>\<open>DoYaLikeDAGs\<close> does (return a graph, return an error, panic), the
  memory after the call is the memory before it: the resource list of the registry and
  every field of every resource, \<^verbatim>\<open>Status\<close> included, are unchanged.
\<close>

theorem DoYaLikeDAGs_read_only: "snd (DoYaLikeDAGs m) = m"
proof -
  let ?rs = "Resources (config m)"
  have "snd (connect_resources m (add_vertices empty_graph ?rs) ?rs) = m"
    by (rule connect_resources_memory)
  then show ?thesis
    by (cases "connect_resources m (add_vertices empty_graph ?rs) ?rs")
       (auto simp: DoYaLikeDAGs_def split: outcome.splits sum.splits)
qed

subsection \<open>The graph that is built\<close>

lemma vertices_add_vertices: "vertices (add_vertices g rs) = vertices g \<union> Some ` set rs"
  by (induction rs arbitrary: g) (auto simp: Add_def)

lemma edges_add_vertices: "edges (add_vertices g rs) = edges g"
  by (induction rs arbitrary: g) (auto simp: Add_def)

text \<open>
  When every lookup of the build goes on to \<^verbatim>\<open>Connect\<close>, the inner loop adds one edge
  per address, from whatever the lookup returned to the resource.
\<close>

lemma connect_dependencies_connects:
  assumes "\<forall>d \<in> set ds. connects m d"
  shows "connect_dependencies m g r ds =
     (Returns (Inl (g\<lparr>edges := edges g \<union> (\<lambda>d. (dependency m d, Some r)) ` set ds\<rparr>)), m)"
  using assms
proof (induction ds arbitrary: g)
  case Nil
  then show ?case by simp
next
  case (Cons d ds)
  have c: "connects m d" using Cons.prems by simp
  have prem: "\<forall>d \<in> set ds. connects m d" using Cons.prems by simp
  obtain res where F: "FindResource m d = (res, m)"
    using FindResource_memory [of m d] by (cases "FindResource m d") simp
  from c F obtain dep err where res: "res = Returns (dep, err)"
    and nis: "\<not> xerrors_Is err (ResourceNotFoundError '''')"
    by (cases res) (auto simp: connects_def)
  have dep: "dependency m d = dep"
    using F res by (simp add: dependency_def)
  let ?g1 = "Connect g (BasicEdge dep (Some r))"
  have "connect_dependencies m g r (d # ds) = connect_dependencies m ?g1 r ds"
    using F res nis by simp
  also have "\<dots> = (Returns (Inl (?g1\<lparr>edges := edges ?g1 \<union> (\<lambda>d. (dependency m d, Some r)) ` set ds\<rparr>)), m)"
    by (rule Cons.IH [OF prem])
  also have "?g1\<lparr>edges := edges ?g1 \<union> (\<lambda>d. (dependency m d, Some r)) ` set ds\<rparr>
      = g\<lparr>edges := edges g \<union> (\<lambda>d. (dependency m d, Some r)) ` set (d # ds)\<rparr>"
    by (simp add: Connect_def BasicEdge_def dep)
  finally show ?case .
qed

lemma connect_resources_connects:
  assumes "\<forall>r \<in> set rs. \<forall>d \<in> set (DependsOn (objects m r)). connects m d"
  shows "connect_resources m g rs =
     (Returns (Inl (g\<lparr>edges := edges g \<union>
        (\<Union>r \<in> set rs. (\<lambda>d. (dependency m d, Some r)) ` set (DependsOn (objects m r)))\<rparr>)), m)"
  using assms
proof (induction rs arbitrary: g)
  case Nil
  then show ?case by simp
next
  case (Cons r rs)
  let ?E = "\<lambda>r. (\<lambda>d. (dependency m d, Some r)) ` set (DependsOn (objects m r))"
  have here: "\<forall>d \<in> set (DependsOn (objects m r)). connects m d" using Cons.prems by simp
  have prem: "\<forall>r \<in> set rs. \<forall>d \<in> set (DependsOn (objects m r)). connects m d"
    using Cons.prems by simp
  let ?g1 = "g\<lparr>edges := edges g \<union> ?E r\<rparr>"
  have "connect_resources m g (r # rs) = connect_resources m ?g1 rs"
    by (simp add: connect_dependencies_connects [OF here])
  also have "\<dots> = (Returns (Inl (?g1\<lparr>edges := edges ?g1 \<union> (\<Union>r \<in> set rs. ?E r)\<rparr>)), m)"
    by (rule Cons.IH [OF prem])
  also have "?g1\<lparr>edges := edges ?g1 \<union> (\<Union>r \<in> set rs. ?E r)\<rparr>
      = g\<lparr>edges := edges g \<union> (\<Union>r \<in> set (r # rs). ?E r)\<rparr>"
    by (simp add: Un_assoc)
  finally show ?case .
qed

lemma DoYaLikeDAGs_connects:
  assumes "\<forall>r \<in> set (Resources (config m)). \<forall>d \<in> set (DependsOn (objects m r)). connects m d"
  shows "DoYaLikeDAGs m =
     (Returns (Some \<lparr>vertices = Some ` set (Resources (config m)),
         edges = (\<Union>r \<in> set (Resources (config m)).
            (\<lambda>d. (dependency m d, Some r)) ` set (DependsOn (objects m r)))\<rparr>, None), m)"
  by (simp add: DoYaLikeDAGs_def connect_resources_connects [OF assms]
      vertices_add_vertices edges_add_vertices empty_graph_def)

lemma resolved_connects: "resolved m d D \<Longrightarrow> connects m d"
  by (simp add: resolved_def connects_def xerrors_Is_def)

lemma resolved_dependency: "resolved m d D \<Longrightarrow> dependency m d = Some D"
  by (simp add: resolved_def dependency_def)

lemma edges_resolved:
  assumes "\<forall>r \<in> set (Resources (config m)). \<forall>d \<in> set (DependsOn (objects m r)). \<exists>D. resolved m d D"
  shows "(\<Union>r \<in> set (Resources (config m)).
            (\<lambda>d. (dependency m d, Some r)) ` set (DependsOn (objects m r)))
     = (\<lambda>(r, D). (Some D, Some r)) ` depends_on m"
proof (rule set_eqI, rule iffI)
  fix e
  assume "e \<in> (\<Union>r \<in> set (Resources (config m)).
            (\<lambda>d. (dependency m d, Some r)) ` set (DependsOn (objects m r)))"
  then obtain r d where r: "r \<in> set (Resources (config m))"
    and d: "d \<in> set (DependsOn (objects m r))" and e: "e = (dependency m d, Some r)"
    by auto
  from assms r d obtain D where D: "resolved m d D" by blast
  then have "(r, D) \<in> depends_on m" using r d by (auto simp: depends_on_def)
  moreover have "e = (Some D, Some r)" using e D by (simp add: resolved_dependency)
  ultimately show "e \<in> (\<lambda>(r, D). (Some D, Some r)) ` depends_on m" by force
next
  fix e
  assume "e \<in> (\<lambda>(r, D). (Some D, Some r)) ` depends_on m"
  then obtain r D where rD: "(r, D) \<in> depends_on m" and e: "e = (Some D, Some r)"
    by auto
  then obtain d where r: "r \<in> set (Resources (config m))"
    and d: "d \<in> set (DependsOn (objects m r))" and D: "resolved m d D"
    by (auto simp: depends_on_def)
  have "e = (dependency m d, Some r)" using e D by (simp add: resolved_dependency)
  with r d show "e \<in> (\<Union>r \<in> set (Resources (config m)).
            (\<lambda>d. (dependency m d, Some r)) ` set (DependsOn (objects m r)))"
    by blast
qed

lemma trancl_image:
  "(a, b) \<in> R\<^sup>+ \<Longrightarrow> (f a, f b) \<in> ((\<lambda>(x, y). (f x, f y)) ` R)\<^sup>+"
proof (induction rule: trancl.induct)
  case (r_into_trancl a b)
  then have "(f a, f b) \<in> (\<lambda>(x, y). (f x, f y)) ` R" by force
  then show ?case by (rule trancl.r_into_trancl)
next
  case (trancl_into_trancl a b c)
  then have "(f b, f c) \<in> (\<lambda>(x, y). (f x, f y)) ` R" by force
  with trancl_into_trancl.IH show ?case by (rule trancl.trancl_into_trancl)
qed

lemma cyclic_resolved:
  "resolved cyclic_registry ''container.b'' 1" "resolved cyclic_registry ''container.a'' 0"
  by (simp_all add: resolved_def cyclic_registry_def FindResource_def memory_of_def
      resource_info_def index_def)

lemma cyclic_depends_on: "(0, 1) \<in> depends_on cyclic_registry" "(1, 0) \<in> depends_on cyclic_registry"
  using cyclic_resolved
  by (simp_all add: depends_on_def cyclic_registry_def memory_of_def resource_info_def)

text \<open>
  C2 (amended). \<^verbatim>\<open>DoYaLikeDAGs\<close> has no cycle check and the package no
  \<^verbatim>\<open>DependencyCycle\<close> error. For every registry whose \<^verbatim>\<open>DependsOn\<close> addresses all
  resolve and whose dependency relation has a cycle through a resource \<open>a\<close>, the build
  returns no error and a graph: its vertices are the registered resources, its edges
  are the edges \<open>D \<rightarrow> r\<close> of the dependency relation, and they hold a cycle through \<open>a\<close>.
\<close>

theorem DoYaLikeDAGs_returns_cycle:
  assumes "\<forall>r \<in> set (Resources (config m)). \<forall>d \<in> set (DependsOn (objects m r)). \<exists>D. resolved m d D"
    and "(a, a) \<in> (depends_on m)\<^sup>+"
  shows "DoYaLikeDAGs m =
     (Returns (Some \<lparr>vertices = Some ` set (Resources (config m)),
                     edges = (\<lambda>(r, D). (Some D, Some r)) ` depends_on m\<rparr>, None), m)
   \<and> (Some a, Some a) \<in> ((\<lambda>(r, D). (Some D, Some r)) ` depends_on m)\<^sup>+"
proof
  have "\<forall>r \<in> set (Resources (config m)). \<forall>d \<in> set (DependsOn (objects m r)). connects m d"
    using assms(1) resolved_connects by blast
  from DoYaLikeDAGs_connects [OF this]
  show "DoYaLikeDAGs m =
     (Returns (Some \<lparr>vertices = Some ` set (Resources (config m)),
                     edges = (\<lambda>(r, D). (Some D, Some r)) ` depends_on m\<rparr>, None), m)"
    by (simp add: edges_resolved [OF assms(1)])
next
  from assms(2) have "(a, a) \<in> ((depends_on m)\<inverse>)\<^sup>+"
    by (simp add: trancl_converse)
  then have "(Some a, Some a) \<in> ((\<lambda>(x, y). (Some x, Some y)) ` ((depends_on m)\<inverse>))\<^sup>+"
    by (rule trancl_image)
  moreover have "(\<lambda>(x, y). (Some x, Some y)) ` ((depends_on m)\<inverse>)
      = (\<lambda>(r, D). (Some D, Some r)) ` depends_on m"
    by force
  ultimately show "(Some a, Some a) \<in> ((\<lambda>(r, D). (Some D, Some r)) ` depends_on m)\<^sup>+"
    by simp
qed

theorem DoYaLikeDAGs_returns_cycle_witness:
  "(0, 1) \<in> depends_on cyclic_registry \<and> (1, 0) \<in> depends_on cyclic_registry \<and>
   fst (DoYaLikeDAGs cyclic_registry) =
     Returns (Some \<lparr>vertices = {Some 0, Some 1},
                    edges = (\<lambda>(r, D). (Some D, Some r)) ` depends_on cyclic_registry\<rparr>, None) \<and>
   (Some 0, Some 0) \<in> ((\<lambda>(r, D). (Some D, Some r)) ` depends_on cyclic_registry)\<^sup>+"
proof -
  have all: "\<forall>r \<in> set (Resources (config cyclic_registry)).
      \<forall>d \<in> set (DependsOn (objects cyclic_registry r)). \<exists>D. resolved cyclic_registry d D"
    using cyclic_resolved
    by (auto simp: cyclic_registry_def memory_of_def resource_info_def)
  have "(0, 0) \<in> (depends_on cyclic_registry)\<^sup>+"
    using cyclic_depends_on by (blast intro: trancl.intros)
  from DoYaLikeDAGs_returns_cycle [OF all this] cyclic_depends_on
  show ?thesis
    by (auto simp: cyclic_registry_def memory_of_def)
qed

text \<open>
  The claim as stated fails on the cyclic example: each of the two addresses resolves
  to the other resource, and the build returns no error and the graph with both edges.
\<close>

theorem DoYaLikeDAGs_returns_cycle_counterexample:
  "DependsOn (objects cyclic_registry 0) = [''container.b''] \<and>
   FindResource cyclic_registry ''container.b'' = (Returns (Some 1, None), cyclic_registry) \<and>
   DependsOn (objects cyclic_registry 1) = [''container.a''] \<and>
   FindResource cyclic_registry ''container.a'' = (Returns (Some 0, None), cyclic_registry) \<and>
   DoYaLikeDAGs cyclic_registry =
     (Returns (Some \<lparr>vertices = {Some 1, Some 0},
                     edges = {(Some 0, Some 1), (Some 1, Some 0)}\<rparr>, None), cyclic_registry)"
  by (simp add: cyclic_registry_def DoYaLikeDAGs_def FindResource_def memory_of_def
      resource_info_def index_def xerrors_Is_def empty_graph_def Add_def Connect_def BasicEdge_def)

text \<open>
  C3 (the code departs from the claim). The only resource depends on
  \<^verbatim>\<open>network.missing\<close>, which no resource matches: the lookup returns
  \<open>ResourceNotFoundError\<close>. The claim asks for a wrapped \<open>ResourceNotFoundError\<close> and
  no graph; the build returns no error and a graph, because \<^verbatim>\<open>xerrors.Is\<close> compares
  the error with \<open>ResourceNotFoundError ''''\<close>, which it does not equal.
\<close>

theorem DoYaLikeDAGs_unresolved_reference:
  "FindResource (memory_of [0] [resource_info ''container'' ''a'' [''network.missing'']])
       ''network.missing''
     = (Returns (None, Some (ResourceNotFoundError ''network.missing'')),
        memory_of [0] [resource_info ''container'' ''a'' [''network.missing'']]) \<and>
   DoYaLikeDAGs (memory_of [0] [resource_info ''container'' ''a'' [''network.missing'']])
     = (Returns (Some \<lparr>vertices = {Some 0}, edges = {(None, Some 0)}\<rparr>, None),
        memory_of [0] [resource_info ''container'' ''a'' [''network.missing'']])"
  by (simp add: DoYaLikeDAGs_def FindResource_def memory_of_def
      resource_info_def index_def xerrors_Is_def empty_graph_def Add_def Connect_def BasicEdge_def)

text \<open>
  C6 (the code departs from the claim). \<^verbatim>\<open>container.a\<close> depends on
  \<^verbatim>\<open>network.n\<close>, which is registered, and on \<^verbatim>\<open>network.missing\<close>, which is not.
  The build succeeds; besides the edge from \<^verbatim>\<open>network.n\<close> the graph holds an edge
  whose source is \<^verbatim>\<open>nil\<close>, which is no resolved dependency and no vertex of the
  graph.
\<close>

theorem DoYaLikeDAGs_edge_from_nil:
  "DoYaLikeDAGs (memory_of [0, 1]
       [resource_info ''network'' ''n'' [],
        resource_info ''container'' ''a'' [''network.n'', ''network.missing'']])
     = (Returns (Some \<lparr>vertices = {Some 1, Some 0},
                       edges = {(None, Some 1), (Some 0, Some 1)}\<rparr>, None),
        memory_of [0, 1]
          [resource_info ''network'' ''n'' [],
           resource_info ''container'' ''a'' [''network.n'', ''network.missing'']])"
  by (simp add: DoYaLikeDAGs_def FindResource_def memory_of_def
      resource_info_def index_def xerrors_Is_def empty_graph_def Add_def Connect_def BasicEdge_def)

subsection \<open>The loader\<close>

text \<open>
  C10. Whatever the constructor of the network does, the \<^verbatim>\<open>Config\<close> that \<^verbatim>\<open>New\<close>
  returns has no blueprint and an empty resource list: the count is 0 and the
  \<^verbatim>\<open>wan\<close> network that \<^verbatim>\<open>New\<close> has built is not registered.
\<close>

theorem New_registers_nothing:
  "Blueprint (config (New L st)) = None \<and>
   Resources (config (New L st)) = [] \<and>
   ResourceCount (New L st) = 0 \<and>
   fst (NewNetwork L ''wan'' st) \<notin> set (Resources (config (New L st)))"
  by (simp add: New_def ResourceCount_def split: prod.splits)

lemma ParseHCLFile_blocks_append:
  "ParseHCLFile_blocks L file (xs @ ys) m =
     (case ParseHCLFile_blocks L file xs m of
        (Returns None, m1) \<Rightarrow> ParseHCLFile_blocks L file ys m1
      | (Returns (Some e), m1) \<Rightarrow> (Returns (Some e), m1)
      | (Panics, m1) \<Rightarrow> (Panics, m1))"
proof (induction xs arbitrary: m)
  case Nil
  then show ?case by simp
next
  case (Cons x xs)
  show ?case
  proof (cases "ParseHCLFile_block L file x m")
    case (Pair res m1)
    show ?thesis
    proof (cases res)
      case Panics
      with Pair show ?thesis by simp
    next
      case (Returns e)
      with Pair Cons.IH [of m1] show ?thesis by (cases e) simp_all
    qed
  qed
qed

lemma ParseHCLFile_block_wan:
  assumes "BlockType b = TypeNetwork L" and "TypeNetwork L \<noteq> TypeCluster L"
    and "index (Labels b) 0 = Returns ''wan''"
  shows "ParseHCLFile_block L file b m = (Returns (Some ErrorWANExists), m)"
  using assms by (simp add: ParseHCLFile_block_def)

lemma ParseHCLFile_blocks_wan:
  assumes "BlockType b = TypeNetwork L" and "TypeNetwork L \<noteq> TypeCluster L"
    and "index (Labels b) 0 = Returns ''wan''"
  shows "fst (ParseHCLFile_blocks L file (before @ b # after) m) \<noteq> Returns None"
proof (cases "ParseHCLFile_blocks L file before m")
  case (Pair res m1)
  show ?thesis
  proof (cases res)
    case Panics
    with Pair show ?thesis by (simp add: ParseHCLFile_blocks_append)
  next
    case (Returns e)
    with Pair show ?thesis
      by (cases e) (simp_all add: ParseHCLFile_blocks_append ParseHCLFile_block_wan [OF assms])
  qed
qed

text \<open>
  C9. Let a file hold a block \<open>b\<close> of the network type whose first label is
  \<^verbatim>\<open>wan\<close> (the type tags of the network and of the cluster, which the switch tests
  first, being different). The case of the switch returns \<open>ErrorWANExists\<close> for \<open>b\<close> and
  leaves the memory as it found it: no resource is built, nothing is decoded and
  \<^verbatim>\<open>AddResource\<close> is not called. So when the blocks before \<open>b\<close> load without error,
  \<^verbatim>\<open>ParseHCLFile\<close> returns \<open>ErrorWANExists\<close> with the memory those blocks left; and
  whatever they do, \<^verbatim>\<open>ParseHCLFile\<close> does not return without an error.
\<close>

theorem ParseHCLFile_network_wan:
  assumes "ParseHCL L file = SyntaxBody (before @ b # after)"
    and "BlockType b = TypeNetwork L" and "TypeNetwork L \<noteq> TypeCluster L"
    and "index (Labels b) 0 = Returns ''wan''"
  shows "ParseHCLFile_block L file b m1 = (Returns (Some ErrorWANExists), m1)
   \<and> (ParseHCLFile_blocks L file before m = (Returns None, m1) \<longrightarrow>
        ParseHCLFile L file m = (Returns (Some ErrorWANExists), m1))
   \<and> fst (ParseHCLFile L file m) \<noteq> Returns None"
proof (intro conjI impI)
  show "ParseHCLFile_block L file b m1 = (Returns (Some ErrorWANExists), m1)"
    by (rule ParseHCLFile_block_wan [OF assms(2-4)])
next
  assume "ParseHCLFile_blocks L file before m = (Returns None, m1)"
  then show "ParseHCLFile L file m = (Returns (Some ErrorWANExists), m1)"
    by (simp add: ParseHCLFile_def assms(1) ParseHCLFile_blocks_append
        ParseHCLFile_block_wan [OF assms(2-4)])
next
  show "fst (ParseHCLFile L file m) \<noteq> Returns None"
    using ParseHCLFile_blocks_wan [OF assms(2-4)] by (simp add: ParseHCLFile_def assms(1))
qed

lemma example_before:
  "ParseHCLFile_blocks example_loader ''stack.hcl'' [hd example_blocks] (memory_of [] [])
     = (Returns None, after_cluster)"
  by (simp add: example_blocks_def example_loader_def ParseHCLFile_block_def add_block_def
      index_def example_new_def decodeBody_def AddResource_appends memory_of_def
      resource_info_def after_cluster_def)

theorem ParseHCLFile_network_wan_witness:
  "ParseHCLFile_blocks example_loader ''stack.hcl'' [hd example_blocks] (memory_of [] [])
     = (Returns None, after_cluster) \<and>
   ParseHCLFile example_loader ''stack.hcl'' (memory_of [] [])
     = (Returns (Some ErrorWANExists), after_cluster)"
proof -
  have p: "ParseHCL example_loader ''stack.hcl'' =
      SyntaxBody ([hd example_blocks] @ (example_blocks ! 1) # [example_blocks ! 2])"
    by (simp add: example_loader_def example_blocks_def)
  have t: "BlockType (example_blocks ! 1) = TypeNetwork example_loader"
    by (simp add: example_loader_def example_blocks_def)
  have d: "TypeNetwork example_loader \<noteq> TypeCluster example_loader"
    by (simp add: example_loader_def)
  have l: "index (Labels (example_blocks ! 1)) 0 = Returns ''wan''"
    by (simp add: example_blocks_def index_def)
  from ParseHCLFile_network_wan [OF p t d l, of after_cluster "memory_of [] []"] example_before
  show ?thesis by simp
qed


end
